theory Spec2Isabelle
  imports Main "HOL-Library.Word"
begin

section \<open>The API client's request helper (frontend/src/lib/api.js)\<close>

text \<open>
  The helper awaits \<open>fetch\<close>, throws on a response that is not ok, returns \<open>null\<close> on
  status 204 and the parsed body otherwise. Values that cross it are the values
  \<open>JSON.parse\<close> builds; a thrown exception is a value of \<open>thrown\<close>, so the helper's result
  is \<open>thrown + json\<close>.
\<close>

text \<open>
  A JSON number is an IEEE double. \<open>Double neg m e\<close> is the finite value
  \<open>(-1)^neg * m * 2^e\<close>, which covers every finite double and both zeros (\<open>m = 0\<close>);
  \<open>Infinity neg\<close> is what a literal out of range parses to. \<open>NaN\<close> is not a value
  \<open>JSON.parse\<close> returns.
\<close>

datatype number = Double bool nat int | Infinity bool

text \<open>
  An object is the list of its members in the order of the text; of a repeated key
  \<open>JSON.parse\<close> keeps the last value, and so does \<open>get_own\<close>.
\<close>

datatype json =
    JNull
  | JBool bool
  | JNum number
  | JStr string
  | JArr "json list"
  | JObj "(string \<times> json) list"

definition get_own :: "(string \<times> json) list \<Rightarrow> string \<Rightarrow> json option" where
  "get_own kvs k = map_of (rev kvs) k"

text \<open>
  What the helper throws: the \<open>Error\<close> it builds itself, with its message and the
  \<open>status\<close> and \<open>body\<close> fields it assigns; the \<open>TypeError\<close> of a property read on \<open>null\<close>
  or of a value that has no string conversion; the \<open>SyntaxError\<close> of \<open>res.json()\<close> on a
  body that is not JSON; and the rejection of \<open>fetch\<close> itself.
\<close>

datatype thrown =
    Error string "16 word" json  \<comment> \<open>\<open>message\<close>, \<open>status\<close>, \<open>body\<close>\<close>
  | TypeError
  | SyntaxError
  | FetchRejected

text \<open>
  A response as the helper reads it: \<open>res.status\<close>, an unsigned short, and what
  \<open>res.json()\<close> resolves to (\<open>None\<close> when the body is not valid JSON and the promise
  rejects). \<open>res.ok\<close> is the platform's getter: true exactly for the statuses 200 to 299.
\<close>

record response =
  res_status :: "16 word"
  res_json :: "json option"

definition res_ok :: "response \<Rightarrow> bool" where
  "res_ok res = (200 \<le> res_status res \<and> res_status res \<le> 299)"

datatype fetch_result = NetworkFailure | Resolved response

subsection \<open>The JavaScript operators the helper uses\<close>

text \<open>The decimal digits of a status, as the template literal prints an integer of that
  size.\<close>

definition digit_char :: "nat \<Rightarrow> char" where
  "digit_char d = ''0123456789'' ! (d mod 10)"

fun show_nat :: "nat \<Rightarrow> string" where
  "show_nat n = (if n < 10 then [digit_char n] else show_nat (n div 10) @ [digit_char n])"

declare show_nat.simps [simp del]

fun join_with :: "string \<Rightarrow> string list \<Rightarrow> string" where
  "join_with sep [] = []"
| "join_with sep [x] = x"
| "join_with sep (x # y # ys) = x @ sep @ join_with sep (y # ys)"

text \<open>The conversions of an array's elements, in order: the first that throws ends
  the join.\<close>

fun first_thrown :: "(thrown + string) list \<Rightarrow> thrown + string list" where
  "first_thrown [] = Inr []"
| "first_thrown (Inl e # rs) = Inl e"
| "first_thrown (Inr s # rs) =
     (case first_thrown rs of Inl e \<Rightarrow> Inl e | Inr ss \<Rightarrow> Inr (s # ss))"

text \<open>
  \<open>ToString\<close>, which the \<open>Error\<close> constructor applies to its argument. A string is
  itself. A number is printed by the platform's \<open>Number::toString\<close>, the parameter
  \<open>numstr\<close>. An array is \<open>Array.prototype.join\<close>: its elements converted and joined by
  commas, \<open>null\<close> elements empty. An object is converted by \<open>Object.prototype.toString\<close>
  to \<open>[object Object]\<close> unless it has a member \<open>toString\<close> of its own: that member is
  not callable, \<open>valueOf\<close> gives no primitive, and the conversion throws a \<open>TypeError\<close>.
\<close>

fun ToString :: "(number \<Rightarrow> string) \<Rightarrow> json \<Rightarrow> thrown + string" where
  "ToString numstr JNull = Inr ''null''"
| "ToString numstr (JBool b) = Inr (if b then ''true'' else ''false'')"
| "ToString numstr (JNum n) = Inr (numstr n)"
| "ToString numstr (JStr s) = Inr s"
| "ToString numstr (JArr xs) =
     (case first_thrown (map (\<lambda>x. if x = JNull then Inr [] else ToString numstr x) xs) of
        Inl e \<Rightarrow> Inl e
      | Inr ss \<Rightarrow> Inr (join_with '','' ss))"
| "ToString numstr (JObj kvs) =
     (if get_own kvs ''toString'' = None then Inr ''[object Object]'' else Inl TypeError)"

text \<open>Truthiness, for the left operand of \<open>||\<close>; \<open>None\<close> is \<open>undefined\<close>. Of the
  numbers the two zeros are falsy.\<close>

fun truthy :: "json option \<Rightarrow> bool" where
  "truthy None = False"
| "truthy (Some JNull) = False"
| "truthy (Some (JBool b)) = b"
| "truthy (Some (JNum (Double neg m e))) = (m \<noteq> 0)"
| "truthy (Some (JNum (Infinity neg))) = True"
| "truthy (Some (JStr s)) = (s \<noteq> [])"
| "truthy (Some (JArr xs)) = True"
| "truthy (Some (JObj kvs)) = True"

text \<open>
  \<open>body.detail\<close>: a \<open>TypeError\<close> on \<open>null\<close>, the member's value on an object that has
  it, \<open>undefined\<close> on everything else.
\<close>

fun get_detail :: "json \<Rightarrow> thrown + json option" where
  "get_detail JNull = Inl TypeError"
| "get_detail (JObj kvs) = Inr (get_own kvs ''detail'')"
| "get_detail v = Inr None"

subsection \<open>request\<close>

text \<open>
  \<^verbatim>\<open>
  async function request(path, options = {}) {
    const res = await fetch(...);
    if (!res.ok) {
      const body = await res.json().catch(() => ({}));
      const error = new Error(body.detail || `Request failed: ${res.status}`);
      error.status = res.status;
      error.body = body;
      throw error;
    }
    if (res.status === 204) return null;
    return res.json();
  }
  \<close>
\<close>

definition request_failed :: "16 word \<Rightarrow> string" where
  "request_failed st = ''Request failed: '' @ show_nat (unat st)"

definition error_message :: "(number \<Rightarrow> string) \<Rightarrow> json option \<Rightarrow> 16 word \<Rightarrow> thrown + string" where
  \<comment> \<open>the message of \<open>new Error(detail || `Request failed: ${status}`)\<close>, or what the
     constructor throws converting it\<close>
  "error_message numstr detail st =
     (case detail of
        None \<Rightarrow> Inr (request_failed st)
      | Some d \<Rightarrow> if truthy (Some d) then ToString numstr d else Inr (request_failed st))"

definition not_ok_error :: "(number \<Rightarrow> string) \<Rightarrow> response \<Rightarrow> thrown" where
  "not_ok_error numstr res =
     (let body = (case res_json res of None \<Rightarrow> JObj [] | Some b \<Rightarrow> b) in
      case get_detail body of
        Inl e \<Rightarrow> e
      | Inr detail \<Rightarrow>
          (case error_message numstr detail (res_status res) of
             Inl e \<Rightarrow> e
           | Inr msg \<Rightarrow> Error msg (res_status res) body))"

fun request :: "(number \<Rightarrow> string) \<Rightarrow> fetch_result \<Rightarrow> thrown + json" where
  "request numstr NetworkFailure = Inl FetchRejected"
| "request numstr (Resolved res) =
     (if \<not> res_ok res then Inl (not_ok_error numstr res)
      else if res_status res = 204 then Inr JNull
      else (case res_json res of None \<Rightarrow> Inl SyntaxError | Some j \<Rightarrow> Inr j))"


section \<open>The calendar page (frontend/src/app/calendar/page.js)\<close>

text \<open>
  An event as the page reads it from the list the API returned: the fields the per-day
  selection and the views touch, all strings of the JSON object.
\<close>

record calendar_event =
  evt_event_id :: string
  evt_group_id :: string
  evt_title :: string
  evt_status :: string
  evt_start_time_utc :: string
  evt_end_time_utc :: string

text \<open>
  A \<open>Date\<close> is its time value, milliseconds since the epoch, or \<open>NaN\<close> for an
  \<open>Invalid Date\<close> (\<open>None\<close>). Parsing a string and reading the calendar fields of a time
  value in the browser's time zone are the platform's; the page takes them as given, so
  the model takes them as the record \<open>host\<close>.
\<close>

type_synonym jsdate = "int option"

record host =
  Date_parse :: "string \<Rightarrow> int option"
  local_year :: "int \<Rightarrow> int"
  local_month :: "int \<Rightarrow> int"
  local_date :: "int \<Rightarrow> int"

definition new_Date :: "host \<Rightarrow> string \<Rightarrow> jsdate" where
  "new_Date h s = Date_parse h s"

text \<open>The getters return a number, \<open>NaN\<close> (\<open>None\<close>) on an \<open>Invalid Date\<close>.\<close>

definition getFullYear :: "host \<Rightarrow> jsdate \<Rightarrow> int option" where
  "getFullYear h d = map_option (local_year h) d"

definition getMonth :: "host \<Rightarrow> jsdate \<Rightarrow> int option" where
  "getMonth h d = map_option (local_month h) d"

definition getDate :: "host \<Rightarrow> jsdate \<Rightarrow> int option" where
  "getDate h d = map_option (local_date h) d"

text \<open>\<open>===\<close> on numbers: \<open>NaN\<close> equals nothing, itself included.\<close>

fun strict_eq :: "int option \<Rightarrow> int option \<Rightarrow> bool" where
  "strict_eq (Some x) (Some y) = (x = y)"
| "strict_eq a b = False"

text \<open>
  \<^verbatim>\<open>
  function isSameDay(a, b) {
      return (
          a.getFullYear() === b.getFullYear() &&
          a.getMonth() === b.getMonth() &&
          a.getDate() === b.getDate()
      );
  }
  \<close>
\<close>

definition isSameDay :: "host \<Rightarrow> jsdate \<Rightarrow> jsdate \<Rightarrow> bool" where
  "isSameDay h a b =
     (strict_eq (getFullYear h a) (getFullYear h b)
      \<and> strict_eq (getMonth h a) (getMonth h b)
      \<and> strict_eq (getDate h a) (getDate h b))"

text \<open>
  The per-day selection is written four times in the page, each a filter over the event
  list; each is modelled where it stands.
  \<^verbatim>\<open>
  const getEventsForDay = (day) =>
      events.filter((evt) => {
          if (evt.status === "Cancelled") return false;
          const start = new Date(evt.start_time_utc);
          return isSameDay(start, day);
      });
  \<close>
\<close>

definition getEventsForDay :: "host \<Rightarrow> calendar_event list \<Rightarrow> jsdate \<Rightarrow> calendar_event list" where
  "getEventsForDay h events day =
     filter (\<lambda>evt.
       if evt_status evt = ''Cancelled'' then False
       else (let start = new_Date h (evt_start_time_utc evt) in isSameDay h start day))
     events"

text \<open>\<open>WeekView\<close>: \<open>dayEvents\<close> of each of the week's days, every one of them rendered.\<close>

definition WeekView_dayEvents :: "host \<Rightarrow> calendar_event list \<Rightarrow> jsdate \<Rightarrow> calendar_event list" where
  "WeekView_dayEvents h events day =
     filter (\<lambda>evt.
       if evt_status evt = ''Cancelled'' then False
       else (let start = new_Date h (evt_start_time_utc evt) in isSameDay h start day))
     events"

definition WeekView :: "host \<Rightarrow> jsdate list \<Rightarrow> calendar_event list \<Rightarrow> calendar_event list" where
  "WeekView h weekDays events = concat (map (\<lambda>day. WeekView_dayEvents h events day) weekDays)"

text \<open>
  \<open>MonthView\<close>: its own \<open>getEventsForDay\<close>, and of each cell's events the first three
  rendered as chips (\<open>dayEvents.slice(0, 3)\<close>).
\<close>

definition MonthView_getEventsForDay :: "host \<Rightarrow> calendar_event list \<Rightarrow> jsdate \<Rightarrow> calendar_event list" where
  "MonthView_getEventsForDay h events day =
     filter (\<lambda>evt.
       if evt_status evt = ''Cancelled'' then False
       else (let s = new_Date h (evt_start_time_utc evt) in isSameDay h s day))
     events"

definition MonthView :: "host \<Rightarrow> jsdate list \<Rightarrow> calendar_event list \<Rightarrow> calendar_event list" where
  "MonthView h cells events =
     concat (map (\<lambda>date. take 3 (MonthView_getEventsForDay h events date)) cells)"

text \<open>\<open>DayView\<close>: \<open>dayEvents\<close> of the one date, every one of them rendered.\<close>

definition DayView_dayEvents :: "host \<Rightarrow> calendar_event list \<Rightarrow> jsdate \<Rightarrow> calendar_event list" where
  "DayView_dayEvents h events date =
     filter (\<lambda>evt.
       if evt_status evt = ''Cancelled'' then False
       else (let s = new_Date h (evt_start_time_utc evt) in isSameDay h s date))
     events"

definition DayView :: "host \<Rightarrow> jsdate \<Rightarrow> calendar_event list \<Rightarrow> calendar_event list" where
  "DayView h date events = DayView_dayEvents h events date"

text \<open>
  The selection as the claim words it: the event's \<open>start_time_utc\<close> falls on the day
  in local time when it parses to an instant whose local calendar date (year, month, day
  of the month) is the day's.
\<close>

definition local_calendar_date :: "host \<Rightarrow> int \<Rightarrow> int \<times> int \<times> int" where
  "local_calendar_date h t = (local_year h t, local_month h t, local_date h t)"

definition falls_on_day :: "host \<Rightarrow> string \<Rightarrow> jsdate \<Rightarrow> bool" where
  "falls_on_day h start_time_utc day =
     (case (Date_parse h start_time_utc, day) of
        (Some t, Some d) \<Rightarrow> local_calendar_date h t = local_calendar_date h d
      | _ \<Rightarrow> False)"

definition selected_for_day :: "host \<Rightarrow> calendar_event list \<Rightarrow> jsdate \<Rightarrow> calendar_event list" where
  "selected_for_day h events day =
     filter (\<lambda>evt. evt_status evt \<noteq> ''Cancelled'' \<and> falls_on_day h (evt_start_time_utc evt) day)
       events"

text \<open>
  A browser five hours west of Greenwich in March 2024, for the worked examples: it
  parses the two ISO strings below, and reads the local date of an instant.
\<close>

definition example_host :: host where
  "example_host =
     \<lparr>Date_parse = (\<lambda>s. if s = ''2024-03-01T23:00:00Z'' then Some 1709334000000
                         else if s = ''2024-03-02T06:00:00Z'' then Some 1709359200000
                         else None),
      local_year = (\<lambda>t. 2024),
      local_month = (\<lambda>t. 2),
      local_date = (\<lambda>t. (t - 18000000) div 86400000 - 19782)\<rparr>"

definition example_events :: "calendar_event list" where
  "example_events =
     [\<lparr>evt_event_id = ''e1'', evt_group_id = ''g'', evt_title = ''Dinner'',
       evt_status = ''Scheduled'', evt_start_time_utc = ''2024-03-01T23:00:00Z'',
       evt_end_time_utc = ''2024-03-02T00:00:00Z''\<rparr>,
      \<lparr>evt_event_id = ''e2'', evt_group_id = ''g'', evt_title = ''Call'',
       evt_status = ''Cancelled'', evt_start_time_utc = ''2024-03-01T23:00:00Z'',
       evt_end_time_utc = ''2024-03-02T00:00:00Z''\<rparr>,
      \<lparr>evt_event_id = ''e3'', evt_group_id = ''g'', evt_title = ''Run'',
       evt_status = ''Scheduled'', evt_start_time_utc = ''2024-03-02T06:00:00Z'',
       evt_end_time_utc = ''2024-03-02T07:00:00Z''\<rparr>]"

section \<open>The scheduling core behind the API\<close>

text \<open>
  The page and the client above call a backend (\<open>backend/app/services\<close> in the README's
  project structure) that is not among the repository's source files. Its conflict
  evaluator, quiet-hours resolver and the create and update operations of its mutation
  coordinator are modelled here from the specification (sections 3, 4.1, 4.2 and 4.3).
  Instants are minutes since the epoch, UTC; a local time of day is minutes since local
  midnight.
\<close>

type_synonym user_id = string
type_synonym group_id = string
type_synonym event_id = nat

text \<open>Modelled from the spec: the constraint tier of an Event (section 3), \<open>Hard | Soft\<close>;
  the backend's enum is missing.\<close>

datatype tier = Hard | Soft

text \<open>Modelled from the spec: the status of an Event (section 3),
  \<open>Scheduled | Cancelled\<close>; the backend's enum is missing.\<close>

datatype event_status = Scheduled | Cancelled

text \<open>Modelled from the spec: the RSVP status of an Attendee (section 3); the backend's
  enum is missing.\<close>

datatype rsvp_status = Invited | Going | Maybe | Declined

text \<open>Modelled from the spec: the action type of a ledger entry (section 3); the
  backend's enum is missing.\<close>

datatype action_type = Create | Update | Cancel | Rsvp | Approve_change | Reject_change

text \<open>Modelled from the spec: the two rejections of the Conflict Evaluator (section 4.2,
  rules 2 and 3); the backend's type is missing.\<close>

datatype reject_reason = HardHardConflict | QuietHoursViolation

text \<open>Modelled from the spec: the evaluator's verdict (section 4.2), \<open>Accept\<close> flagged
  with the non-blocking quiet-hours warning or \<open>Reject(reason)\<close>; the backend's type is
  missing.\<close>

datatype verdict = Accept bool | Reject reject_reason

text \<open>Modelled from the spec: the error taxonomy (section 7); \<open>ConflictError\<close> carries
  the rule that fired. The backend's exception classes are missing.\<close>

datatype error =
    ValidationError
  | PermissionError
  | ConflictError reject_reason
  | VersionConflictError
  | NotFoundError

text \<open>Modelled from the spec: a User (section 3) as far as this core reads it, the
  default timezone (an IANA zone name) and the nullable quiet-hours window (local start
  and end); the backend's model class is missing.\<close>

record user =
  default_timezone :: string
  quiet_hours :: "(int \<times> int) option"

text \<open>Modelled from the spec: a Group (section 3); the backend's model class is
  missing.\<close>

record group =
  group_name :: string
  created_by :: user_id

text \<open>Modelled from the spec: the membership relation (user, group, role) of section 3;
  the backend's model class is missing.\<close>

record membership =
  member_user :: user_id
  member_group :: group_id
  member_role :: string

text \<open>Modelled from the spec: an Event (section 3); its identifier is its position in
  the store's event table. The backend's model class is missing.\<close>

record event =
  group_id :: group_id
  organizer_id :: user_id
  title :: string
  start_time_utc :: int
  end_time_utc :: int
  constraint_level :: tier
  status :: event_status
  version :: nat

text \<open>Modelled from the spec: an Attendee (section 3), an (event, user) pair with an RSVP
  status; the backend's model class is missing.\<close>

record attendee =
  att_event :: event_id
  att_user :: user_id
  rsvp :: rsvp_status

text \<open>Modelled from the spec: the partial event fields a change carries (sections 3 and
  4.3); the backend's schema is missing.\<close>

record changes =
  new_title :: "string option"
  new_start :: "int option"
  new_end :: "int option"
  new_tier :: "tier option"

text \<open>Modelled from the spec: an EventMutation, the ledger entry of section 3; its
  identifier is its position in the ledger. The backend's model class is missing.\<close>

record mutation =
  target :: event_id
  actor :: user_id
  action :: action_type
  before :: "event option"
  after :: "event option"
  idempotency_key :: string
  timestamp :: int

text \<open>Modelled from the spec: the Entity Store (section 2), the tables this part of the
  core reads and writes. Events and ledger entries are never removed, so both are lists
  that only grow or are updated in place. The backend's database layer is missing.\<close>

record store =
  users :: "user_id \<rightharpoonup> user"
  groups :: "group_id \<rightharpoonup> group"
  memberships :: "membership list"
  events :: "event list"
  attendees :: "attendee list"
  ledger :: "mutation list"

text \<open>The time-zone database: the UTC offset, in minutes east of Greenwich, of a zone on
  a local date (days since the epoch). It is the platform's, taken as a parameter.\<close>

type_synonym tzdb = "string \<Rightarrow> int \<Rightarrow> int"

subsection \<open>Timezone/DND Resolver (spec 4.1)\<close>

text \<open>Modelled from the spec: the UTC instant of local midnight of a user's local date,
  by the user's \<open>default_timezone\<close>; the backend's conversion is missing.\<close>

definition local_midnight :: "tzdb \<Rightarrow> user \<Rightarrow> int \<Rightarrow> int" where
  "local_midnight tz u d = d * 1440 - tz (default_timezone u) d"

text \<open>Modelled from the spec: the resolver of section 4.1, missing from the sources. No
  window gives no interval; a window within the day gives one UTC interval; a window that
  wraps midnight (start > end) is split into two, the part of the date before its end and
  the part from its start.\<close>

definition resolve_dnd :: "tzdb \<Rightarrow> user \<Rightarrow> int \<Rightarrow> (int \<times> int) list" where
  "resolve_dnd tz u d =
     (case quiet_hours u of
        None \<Rightarrow> []
      | Some (qs, qe) \<Rightarrow>
          (let m = local_midnight tz u d in
           if qs > qe then [(m, m + qe), (m + qs, m + 1440)] else [(m + qs, m + qe)]))"

text \<open>Modelled from the spec: the quiet-hours intervals of a set of attendees around a
  candidate interval, "resolves DND for all prospective attendees" (section 4.3), missing
  from the sources. The dates run from the day before the interval's first UTC date to
  the day after its last, which covers every local date the interval touches.\<close>

definition dnd_intervals :: "tzdb \<Rightarrow> store \<Rightarrow> user_id list \<Rightarrow> int \<Rightarrow> int \<Rightarrow> (int \<times> int) list" where
  "dnd_intervals tz s uids st en =
     concat (map (\<lambda>uid. case users s uid of
                           None \<Rightarrow> []
                         | Some u \<Rightarrow> concat (map (resolve_dnd tz u)
                                                 [st div 1440 - 1 .. en div 1440 + 1]))
                 uids)"

subsection \<open>Conflict Evaluator (spec 4.2)\<close>

text \<open>Modelled from the spec: half-open interval overlap,
  \<open>a.start < b.end && b.start < a.end\<close> (section 4.2, rule 1); the backend's function is
  missing.\<close>

definition intersects :: "int \<times> int \<Rightarrow> int \<times> int \<Rightarrow> bool" where
  "intersects a b = (fst a < snd b \<and> fst b < snd a)"

text \<open>Modelled from the spec: the half-open interval \<open>[start,end)\<close> of an event (section
  4.2, rule 1); the backend's accessor is missing.\<close>

definition interval :: "event \<Rightarrow> int \<times> int" where
  "interval e = (start_time_utc e, end_time_utc e)"

text \<open>Modelled from the spec: rule 1 of section 4.2, the existing, non-cancelled events
  whose interval intersects the candidate's; the backend's query is missing.\<close>

definition overlap_set :: "event \<Rightarrow> event list \<Rightarrow> event list" where
  "overlap_set candidate existing =
     filter (\<lambda>e. status e \<noteq> Cancelled \<and> intersects (interval candidate) (interval e)) existing"

text \<open>Modelled from the spec: \<open>evaluate(candidate, overlappingEvents, dndIntervals)\<close> of
  section 4.2, its rules in their precedence; the backend's evaluator is missing.\<close>

definition evaluate :: "event \<Rightarrow> event list \<Rightarrow> (int \<times> int) list \<Rightarrow> verdict" where
  "evaluate candidate overlappingEvents dndIntervals =
     (let overlapping = overlap_set candidate overlappingEvents;
          in_dnd = (\<exists>i \<in> set dndIntervals. intersects (interval candidate) i)
      in if constraint_level candidate = Hard
            \<and> (\<exists>e \<in> set overlapping. constraint_level e = Hard)
         then Reject HardHardConflict
         else if constraint_level candidate = Hard \<and> in_dnd
         then Reject QuietHoursViolation
         else Accept in_dnd)"

subsection \<open>Mutation Coordinator: create and update (spec 4.3)\<close>

text \<open>Modelled from the spec: reading an event by its identifier, entity-or-NotFound
  (section 6); the backend's store access is missing.\<close>

definition get_event :: "store \<Rightarrow> event_id \<Rightarrow> event option" where
  "get_event s eid = (if eid < length (events s) then Some (events s ! eid) else None)"

text \<open>Modelled from the spec: the attendee set of an event (section 3); the backend's
  query is missing.\<close>

definition attendees_of :: "store \<Rightarrow> event_id \<Rightarrow> user_id list" where
  "attendees_of s eid = map att_user (filter (\<lambda>a. att_event a = eid) (attendees s))"

text \<open>Modelled from the spec: the existing events "for the same attendee set" (section
  4.2, rule 1), those that share an attendee with the candidate, the candidate itself
  left out on an update; the backend's query is missing.\<close>

definition sharing_events :: "store \<Rightarrow> user_id list \<Rightarrow> event_id option \<Rightarrow> event list" where
  "sharing_events s uids self =
     map (\<lambda>i. events s ! i)
       (filter (\<lambda>i. Some i \<noteq> self \<and> (\<exists>u \<in> set (attendees_of s i). u \<in> set uids))
          [0..<length (events s)])"

text \<open>Modelled from the spec: group membership of a user (section 3); the backend's
  query is missing.\<close>

definition is_member :: "store \<Rightarrow> user_id \<Rightarrow> group_id \<Rightarrow> bool" where
  "is_member s uid gid =
     (\<exists>m \<in> set (memberships s). member_user m = uid \<and> member_group m = gid)"

text \<open>Modelled from the spec: the Event a create proposes and, once accepted, persists
  (section 4.3): \<open>Scheduled\<close>, at version 1. The backend's constructor is missing.\<close>

definition new_event :: "group_id \<Rightarrow> user_id \<Rightarrow> string \<Rightarrow> int \<Rightarrow> int \<Rightarrow> tier \<Rightarrow> event" where
  "new_event groupId organizerId ttl st en tr =
     \<lparr>group_id = groupId, organizer_id = organizerId, title = ttl,
      start_time_utc = st, end_time_utc = en, constraint_level = tr,
      status = Scheduled, version = 1\<rparr>"

text \<open>Modelled from the spec: the idempotency rule of section 4.3 for create, "a repeated
  call with the same key and same target state": the ledger entry that an earlier create
  left under this key for this very event. The backend's lookup is missing.\<close>

definition repeated_create :: "store \<Rightarrow> string \<Rightarrow> event \<Rightarrow> mutation option" where
  "repeated_create s key candidate =
     find (\<lambda>m. idempotency_key m = key \<and> action m = Create \<and> after m = Some candidate)
       (ledger s)"

text \<open>Modelled from the spec: \<open>create(groupId, organizerId, title, start, end, tier)\<close> of
  section 4.3, with the idempotency key the call carries and the time of the call; the
  backend's service function is missing. A repeated call (same key, same event) is a
  no-op that returns the prior entry; a key that was used for another event does not
  stop the checks; an unknown group or organizer is \<open>NotFoundError\<close>; an organizer who is not a member of the
  group is \<open>PermissionError\<close>; a range that does not satisfy \<open>end > start\<close> is
  \<open>ValidationError\<close>; a rejection by the evaluator is \<open>ConflictError\<close>; otherwise the event
  is persisted at version 1, the organizer added as \<open>going\<close>, and a \<open>create\<close> entry
  appended. A failed call leaves the store as it was.\<close>

definition create ::
  "tzdb \<Rightarrow> store \<Rightarrow> string \<Rightarrow> int \<Rightarrow> group_id \<Rightarrow> user_id \<Rightarrow> string \<Rightarrow> int \<Rightarrow> int \<Rightarrow> tier
    \<Rightarrow> (error + mutation) \<times> store" where
  "create tz s key now groupId organizerId ttl st en tr =
     (case repeated_create s key (new_event groupId organizerId ttl st en tr) of
        Some m \<Rightarrow> (Inr m, s)
      | None \<Rightarrow>
          if groups s groupId = None \<or> users s organizerId = None then (Inl NotFoundError, s)
          else if \<not> is_member s organizerId groupId then (Inl PermissionError, s)
          else if \<not> st < en then (Inl ValidationError, s)
          else
            (let candidate = new_event groupId organizerId ttl st en tr
             in case evaluate candidate (sharing_events s [organizerId] None)
                       (dnd_intervals tz s [organizerId] st en) of
                  Reject r \<Rightarrow> (Inl (ConflictError r), s)
                | Accept w \<Rightarrow>
                    (let eid = length (events s);
                         entry = \<lparr>target = eid, actor = organizerId, action = Create,
                                  before = None, after = Some candidate,
                                  idempotency_key = key, timestamp = now\<rparr>
                     in (Inr entry,
                         s\<lparr>events := events s @ [candidate],
                           attendees := attendees s
                             @ [\<lparr>att_event = eid, att_user = organizerId, rsvp = Going\<rparr>],
                           ledger := ledger s @ [entry]\<rparr>))))"

text \<open>Modelled from the spec: applying partial event fields to an event (section 3, "proposed
  changes (partial event fields)"); the backend's function is missing.\<close>

definition apply_changes :: "changes \<Rightarrow> event \<Rightarrow> event" where
  "apply_changes c e =
     e\<lparr>title := (case new_title c of None \<Rightarrow> title e | Some x \<Rightarrow> x),
       start_time_utc := (case new_start c of None \<Rightarrow> start_time_utc e | Some x \<Rightarrow> x),
       end_time_utc := (case new_end c of None \<Rightarrow> end_time_utc e | Some x \<Rightarrow> x),
       constraint_level := (case new_tier c of None \<Rightarrow> constraint_level e | Some x \<Rightarrow> x)\<rparr>"

text \<open>Modelled from the spec: the idempotency rule of section 4.3 for update, "a repeated
  call with the same key and same target state": the ledger entry that an earlier update
  of the same event by the same actor left under this key, made from the version the call
  expects and leading to the state these changes lead to. The backend's lookup is
  missing.\<close>

definition repeated_update ::
  "store \<Rightarrow> string \<Rightarrow> event_id \<Rightarrow> nat \<Rightarrow> user_id \<Rightarrow> changes \<Rightarrow> mutation option" where
  "repeated_update s key eventId expectedVersion actorId chg =
     find (\<lambda>m. idempotency_key m = key \<and> action m = Update \<and> target m = eventId
               \<and> actor m = actorId
               \<and> (case before m of
                      None \<Rightarrow> False
                    | Some b \<Rightarrow> version b = expectedVersion
                        \<and> after m = Some ((apply_changes chg b)\<lparr>version := version b + 1\<rparr>)))
       (ledger s)"

text \<open>Modelled from the spec: \<open>update(eventId, expectedVersion, actorId, changes)\<close> of
  section 4.3, with the idempotency key and the time of the call; the backend's service
  function is missing. The checks stand in the order the section lists them: a repeated
  call (same key, same target state) is a no-op that returns the prior entry; an unknown
  event is \<open>NotFoundError\<close>; an actor who is not
  the organizer is \<open>PermissionError\<close>; a wrong \<open>expectedVersion\<close> is
  \<open>VersionConflictError\<close>; a cancelled event (terminal, immutable) and a range that does not
  satisfy \<open>end > start\<close> are \<open>ValidationError\<close>; the evaluator is re-run on the event at its
  new time and tier, the event itself left out of the overlap set; on success the version
  goes up by one and an \<open>update\<close> entry with the before and after snapshots is appended.\<close>

definition update ::
  "tzdb \<Rightarrow> store \<Rightarrow> string \<Rightarrow> int \<Rightarrow> event_id \<Rightarrow> nat \<Rightarrow> user_id \<Rightarrow> changes
    \<Rightarrow> (error + mutation) \<times> store" where
  "update tz s key now eventId expectedVersion actorId chg =
     (case repeated_update s key eventId expectedVersion actorId chg of
        Some m \<Rightarrow> (Inr m, s)
      | None \<Rightarrow>
          (case get_event s eventId of
             None \<Rightarrow> (Inl NotFoundError, s)
           | Some e \<Rightarrow>
               if actorId \<noteq> organizer_id e then (Inl PermissionError, s)
               else if expectedVersion \<noteq> version e then (Inl VersionConflictError, s)
               else if status e = Cancelled then (Inl ValidationError, s)
               else
                 (let candidate = apply_changes chg e;
                      who = attendees_of s eventId
                  in if \<not> start_time_utc candidate < end_time_utc candidate
                     then (Inl ValidationError, s)
                     else
                       (case evaluate candidate (sharing_events s who (Some eventId))
                               (dnd_intervals tz s who (start_time_utc candidate)
                                  (end_time_utc candidate)) of
                          Reject r \<Rightarrow> (Inl (ConflictError r), s)
                        | Accept w \<Rightarrow>
                            (let e' = candidate\<lparr>version := version e + 1\<rparr>;
                                 entry = \<lparr>target = eventId, actor = actorId, action = Update,
                                          before = Some e, after = Some e',
                                          idempotency_key = key, timestamp = now\<rparr>
                             in (Inr entry,
                                 s\<lparr>events := (events s)[eventId := e'],
                                   ledger := ledger s @ [entry]\<rparr>))))))"

subsection \<open>A worked store\<close>

text \<open>
  The scenario of the specification's section 8: user A lives five hours west of
  Greenwich and keeps quiet hours from 22:00 to 07:00; user B keeps none. Both belong to
  one group. B has a Hard event from minute 600 to 660 and a Soft one from 700 to 760; A
  has a Hard event from 21:00 to 22:00 local time on 2024-03-01, which ends as the quiet
  hours begin. Local midnight of that date is the UTC minute 28487820. The ledger holds
  the entry of the create of B's Soft event, made under the key \<open>lunch-1\<close>.
\<close>

definition example_tz :: tzdb where
  "example_tz zone d = (if zone = ''America/New_York'' then - 300 else 0)"

definition example_user_A :: user where
  "example_user_A = \<lparr>default_timezone = ''America/New_York'', quiet_hours = Some (1320, 420)\<rparr>"

definition example_users :: "user_id \<rightharpoonup> user" where
  "example_users =
     [''A'' \<mapsto> example_user_A,
      ''B'' \<mapsto> \<lparr>default_timezone = ''UTC'', quiet_hours = None\<rparr>]"

definition example_groups :: "group_id \<rightharpoonup> group" where
  "example_groups = [''g'' \<mapsto> \<lparr>group_name = ''Friends'', created_by = ''A''\<rparr>]"

definition example_store :: store where
  "example_store =
     \<lparr>users = example_users,
      groups = example_groups,
      memberships = [\<lparr>member_user = ''A'', member_group = ''g'', member_role = ''owner''\<rparr>,
                     \<lparr>member_user = ''B'', member_group = ''g'', member_role = ''member''\<rparr>],
      events = [new_event ''g'' ''B'' ''Standup'' 600 660 Hard,
                new_event ''g'' ''B'' ''Lunch'' 700 760 Soft,
                new_event ''g'' ''A'' ''Late call'' 28489080 28489140 Hard],
      attendees = [\<lparr>att_event = 0, att_user = ''B'', rsvp = Going\<rparr>,
                   \<lparr>att_event = 1, att_user = ''B'', rsvp = Going\<rparr>,
                   \<lparr>att_event = 2, att_user = ''A'', rsvp = Going\<rparr>],
      ledger = [\<lparr>target = 1, actor = ''B'', action = Create, before = None,
                 after = Some (new_event ''g'' ''B'' ''Lunch'' 700 760 Soft),
                 idempotency_key = ''lunch-1'', timestamp = 0\<rparr>]\<rparr>"

text \<open>A change that moves an event to the minutes 630 to 690 and makes it Hard.\<close>

definition example_move :: changes where
  "example_move =
     \<lparr>new_title = None, new_start = Some 630, new_end = Some 690, new_tier = Some Hard\<rparr>"

section \<open>Properties of the request helper\<close>







text \<open>
  Two inputs on which the helper throws something other than its own \<open>Error\<close>: a body
  that is \<open>null\<close>, and a \<open>detail\<close> that has no string conversion. The \<open>TypeError\<close> carries
  no \<open>status\<close>.
\<close>

lemma request_null_body:
  assumes "\<not> res_ok res" and "res_json res = Some JNull"
  shows "request numstr (Resolved res) = Inl TypeError"
  using assms by (simp add: not_ok_error_def)

lemma request_unprintable_detail:
  assumes "\<not> res_ok res" and "res_json res = Some b" and "get_detail b = Inr (Some d)"
    and "truthy (Some d)" and "ToString numstr d = Inl e"
  shows "request numstr (Resolved res) = Inl e"
  using assms by (simp add: not_ok_error_def error_message_def)




section \<open>Properties of the calendar page\<close>

lemma isSameDay_falls_on_day:
  "isSameDay h (new_Date h s) day = falls_on_day h s day"
  by (cases "Date_parse h s"; cases day)
     (auto simp: isSameDay_def new_Date_def falls_on_day_def local_calendar_date_def
        getFullYear_def getMonth_def getDate_def)

lemma getEventsForDay_selected: "getEventsForDay h evts day = selected_for_day h evts day"
  unfolding getEventsForDay_def selected_for_day_def
  by (rule filter_cong) (simp_all add: isSameDay_falls_on_day)

lemma WeekView_dayEvents_selected: "WeekView_dayEvents h evts day = selected_for_day h evts day"
  unfolding WeekView_dayEvents_def selected_for_day_def
  by (rule filter_cong) (simp_all add: isSameDay_falls_on_day)

lemma MonthView_selected: "MonthView_getEventsForDay h evts day = selected_for_day h evts day"
  unfolding MonthView_getEventsForDay_def selected_for_day_def
  by (rule filter_cong) (simp_all add: isSameDay_falls_on_day)

lemma DayView_selected: "DayView_dayEvents h evts day = selected_for_day h evts day"
  unfolding DayView_dayEvents_def selected_for_day_def
  by (rule filter_cong) (simp_all add: isSameDay_falls_on_day)

lemma selected_not_cancelled:
  "evt \<in> set (selected_for_day h evts day) \<Longrightarrow> evt_status evt \<noteq> ''Cancelled''"
  by (simp add: selected_for_day_def)

lemma WeekView_not_cancelled:
  "evt \<in> set (WeekView h weekDays evts) \<Longrightarrow> evt_status evt \<noteq> ''Cancelled''"
  by (auto simp: WeekView_def WeekView_dayEvents_selected dest: selected_not_cancelled)

lemma MonthView_not_cancelled:
  "evt \<in> set (MonthView h cells evts) \<Longrightarrow> evt_status evt \<noteq> ''Cancelled''"
  by (auto simp: MonthView_def MonthView_selected dest!: in_set_takeD selected_not_cancelled)

lemma DayView_not_cancelled:
  "evt \<in> set (DayView h date evts) \<Longrightarrow> evt_status evt \<noteq> ''Cancelled''"
  by (auto simp: DayView_def DayView_selected dest: selected_not_cancelled)

text \<open>
  C9. For every list of events and every day, each of the four per-day selections of the
  page (the page's own, the week view's, the month view's and the day view's) returns
  exactly the events whose status is not \<open>Cancelled\<close> and whose \<open>start_time_utc\<close> falls on
  that day in local time, and no view renders a cancelled event.
\<close>

theorem per_day_selection:
  "getEventsForDay h evts day = selected_for_day h evts day
   \<and> WeekView_dayEvents h evts day = selected_for_day h evts day
   \<and> MonthView_getEventsForDay h evts day = selected_for_day h evts day
   \<and> DayView_dayEvents h evts day = selected_for_day h evts day
   \<and> (\<forall>evt \<in> set evts.
        evt \<in> set (selected_for_day h evts day)
        \<longleftrightarrow> evt_status evt \<noteq> ''Cancelled'' \<and> falls_on_day h (evt_start_time_utc evt) day)
   \<and> (\<forall>evt \<in> set evts. evt_status evt = ''Cancelled'' \<longrightarrow>
        evt \<notin> set (WeekView h weekDays evts)
        \<and> evt \<notin> set (MonthView h cells evts)
        \<and> evt \<notin> set (DayView h day evts))"
proof -
  have sel: "\<forall>evt \<in> set evts.
      evt \<in> set (selected_for_day h evts day)
      \<longleftrightarrow> evt_status evt \<noteq> ''Cancelled'' \<and> falls_on_day h (evt_start_time_utc evt) day"
    by (simp add: selected_for_day_def)
  have hidden: "\<forall>evt \<in> set evts. evt_status evt = ''Cancelled'' \<longrightarrow>
      evt \<notin> set (WeekView h weekDays evts)
      \<and> evt \<notin> set (MonthView h cells evts)
      \<and> evt \<notin> set (DayView h day evts)"
    using WeekView_not_cancelled MonthView_not_cancelled DayView_not_cancelled by blast
  show ?thesis
    using sel hidden
    by (simp only: getEventsForDay_selected WeekView_dayEvents_selected MonthView_selected
        DayView_selected simp_thms)
qed

lemma example_parse1: "Date_parse example_host ''2024-03-01T23:00:00Z'' = Some 1709334000000"
  by (simp add: example_host_def)
lemma example_parse3: "Date_parse example_host ''2024-03-02T06:00:00Z'' = Some 1709359200000"
  by (simp add: example_host_def)
lemma example_date1: "local_calendar_date example_host 1709334000000 = (2024, 2, 1)"
  by (simp add: example_host_def local_calendar_date_def)
lemma example_date3: "local_calendar_date example_host 1709359200000 = (2024, 2, 2)"
  by (simp add: example_host_def local_calendar_date_def)

lemma example_selected:
  "selected_for_day example_host example_events (Some 1709334000000) = [example_events ! 0]"
  by (simp add: selected_for_day_def example_events_def falls_on_day_def example_parse1
      example_parse3 example_date1 example_date3)

theorem per_day_selection_witness:
  "getEventsForDay example_host example_events (Some 1709334000000) = [example_events ! 0]
   \<and> example_events ! 1 \<in> set example_events
   \<and> evt_status (example_events ! 1) = ''Cancelled''
   \<and> falls_on_day example_host (evt_start_time_utc (example_events ! 1)) (Some 1709334000000)
   \<and> example_events ! 1 \<notin> set (WeekView example_host [Some 1709334000000] example_events)
   \<and> example_events ! 1 \<notin> set (MonthView example_host [Some 1709334000000] example_events)
   \<and> example_events ! 1 \<notin> set (DayView example_host (Some 1709334000000) example_events)"
proof -
  have m: "example_events ! 1 \<in> set example_events"
    by (simp add: example_events_def)
  have c: "evt_status (example_events ! 1) = ''Cancelled''"
    by (simp add: example_events_def)
  have f: "falls_on_day example_host (evt_start_time_utc (example_events ! 1)) (Some 1709334000000)"
    by (simp add: example_events_def falls_on_day_def example_parse1)
  from per_day_selection [of example_host example_events "Some 1709334000000"
      "[Some 1709334000000]" "[Some 1709334000000]"] m c f example_selected
  show ?thesis by metis
qed

section \<open>Properties of the scheduling core\<close>

subsection \<open>The evaluator\<close>

lemma overlap_set_not_cancelled: "x \<in> set (overlap_set cand others) \<Longrightarrow> status x \<noteq> Cancelled"
  by (simp add: overlap_set_def)

lemma overlap_set_drops_cancelled:
  "overlap_set cand (filter (\<lambda>x. status x \<noteq> Cancelled) others) = overlap_set cand others"
  by (simp add: overlap_set_def conj_commute cong: conj_cong)

lemma evaluate_drops_cancelled:
  "evaluate cand (filter (\<lambda>x. status x \<noteq> Cancelled) others) dnd = evaluate cand others dnd"
  by (simp add: evaluate_def overlap_set_drops_cancelled)

lemma evaluate_hard_hard:
  assumes "constraint_level cand = Hard"
    and "e \<in> set others" and "constraint_level e = Hard" and "status e \<noteq> Cancelled"
    and "start_time_utc cand < end_time_utc e" and "start_time_utc e < end_time_utc cand"
  shows "evaluate cand others dnd = Reject HardHardConflict"
proof -
  from assms have "e \<in> set (overlap_set cand others)"
    by (simp add: overlap_set_def intersects_def interval_def)
  with assms(1,3) show ?thesis
    by (auto simp: evaluate_def Let_def)
qed

subsection \<open>create\<close>

lemma create_failure_keeps_store:
  "fst (create tz s key now g org ttl st en tr) = Inl err
   \<Longrightarrow> snd (create tz s key now g org ttl st en tr) = s"
  by (auto simp: create_def Let_def split: option.splits if_splits verdict.splits)

lemma create_rejected:
  assumes "evaluate (new_event g org ttl st en tr)
             (sharing_events s [org] None) (dnd_intervals tz s [org] st en) = Reject r"
  shows "snd (create tz s key now g org ttl st en tr) = s"
    and "repeated_create s key (new_event g org ttl st en tr) = None
         \<Longrightarrow> groups s g \<noteq> None \<Longrightarrow> users s org \<noteq> None
         \<Longrightarrow> is_member s org g \<Longrightarrow> st < en
         \<Longrightarrow> fst (create tz s key now g org ttl st en tr) = Inl (ConflictError r)"
  using assms by (auto simp: create_def Let_def split: option.splits)

lemma create_repeated:
  "repeated_create s key (new_event g org ttl st en tr) = Some m
   \<Longrightarrow> create tz s key now g org ttl st en tr = (Inr m, s)"
  by (simp add: create_def)

lemma repeated_create_same_event:
  "repeated_create s key candidate = Some m
   \<Longrightarrow> m \<in> set (ledger s) \<and> idempotency_key m = key \<and> action m = Create
       \<and> after m = Some candidate"
  by (auto simp: repeated_create_def find_Some_iff)

lemma create_accepted:
  assumes "evaluate (new_event g org ttl st en tr)
             (sharing_events s [org] None) (dnd_intervals tz s [org] st en) = Accept w"
    and "repeated_create s key (new_event g org ttl st en tr) = None"
    and "groups s g \<noteq> None" and "users s org \<noteq> None"
    and "is_member s org g" and "st < en"
  shows "\<exists>entry s'. create tz s key now g org ttl st en tr = (Inr entry, s')
           \<and> action entry = Create \<and> target entry = length (events s)
           \<and> get_event s' (length (events s))
               = Some (new_event g org ttl st en tr)"
  using assms by (auto simp: create_def Let_def get_event_def split: option.splits)

lemma sharing_events_member:
  assumes "i < length (events s)" and "Some i \<noteq> self"
    and "u \<in> set (attendees_of s i)" and "u \<in> set uids"
  shows "events s ! i \<in> set (sharing_events s uids self)"
  using assms by (auto simp: sharing_events_def intro!: image_eqI [where x = i])

lemma sharing_events_excludes_self:
  assumes "x \<in> set (sharing_events s uids (Some eid))"
  shows "\<exists>i. i < length (events s) \<and> i \<noteq> eid \<and> x = events s ! i"
  using assms by (auto simp: sharing_events_def)

subsection \<open>update\<close>

lemma update_failure_keeps_store:
  "fst (update tz s key now eid v a chg) = Inl err
   \<Longrightarrow> snd (update tz s key now eid v a chg) = s"
  by (auto simp: update_def Let_def split: option.splits if_splits verdict.splits)

lemma update_rejected:
  assumes "get_event s eid = Some e"
    and "evaluate (apply_changes chg e) (sharing_events s (attendees_of s eid) (Some eid))
           (dnd_intervals tz s (attendees_of s eid) (start_time_utc (apply_changes chg e))
              (end_time_utc (apply_changes chg e))) = Reject r"
  shows "snd (update tz s key now eid v a chg) = s"
    and "repeated_update s key eid v a chg = None \<Longrightarrow> a = organizer_id e \<Longrightarrow> v = version e
         \<Longrightarrow> status e \<noteq> Cancelled
         \<Longrightarrow> start_time_utc (apply_changes chg e) < end_time_utc (apply_changes chg e)
         \<Longrightarrow> fst (update tz s key now eid v a chg) = Inl (ConflictError r)"
  using assms by (auto simp: update_def Let_def split: option.splits)

subsection \<open>The worked store\<close>

lemma new_event_fields:
  "group_id (new_event g org ttl st en tr) = g"
  "organizer_id (new_event g org ttl st en tr) = org"
  "start_time_utc (new_event g org ttl st en tr) = st"
  "end_time_utc (new_event g org ttl st en tr) = en"
  "constraint_level (new_event g org ttl st en tr) = tr"
  "status (new_event g org ttl st en tr) = Scheduled"
  "version (new_event g org ttl st en tr) = 1"
  by (simp_all add: new_event_def)

lemma example_events_0: "events example_store ! 0 = new_event ''g'' ''B'' ''Standup'' 600 660 Hard"
  by (simp add: example_store_def)

lemma example_events_1: "events example_store ! 1 = new_event ''g'' ''B'' ''Lunch'' 700 760 Soft"
  by (simp add: example_store_def)

lemma example_events_2:
  "events example_store ! 2 = new_event ''g'' ''A'' ''Late call'' 28489080 28489140 Hard"
  by (simp add: example_store_def)

lemma example_length: "length (events example_store) = 3"
  by (simp add: example_store_def)

lemma example_attendees_of:
  "attendees_of example_store 0 = [''B'']"
  "attendees_of example_store (Suc 0) = [''B'']"
  "attendees_of example_store 2 = [''A'']"
  by (simp_all add: attendees_of_def example_store_def)

lemma example_ledger:
  "ledger example_store
     = [\<lparr>target = 1, actor = ''B'', action = Create, before = None,
         after = Some (new_event ''g'' ''B'' ''Lunch'' 700 760 Soft),
         idempotency_key = ''lunch-1'', timestamp = 0\<rparr>]"
  by (simp add: example_store_def)

lemma example_no_repeat:
  "repeated_create example_store ''lunch-1'' (new_event ''g'' ''B'' ''Sync'' 630 690 Hard) = None"
  "repeated_update example_store key eid v a chg = None"
  by (simp_all add: repeated_create_def repeated_update_def example_ledger new_event_def)

lemma example_lookups:
  "groups example_store ''g'' \<noteq> None"
  "users example_store ''B'' = Some \<lparr>default_timezone = ''UTC'', quiet_hours = None\<rparr>"
  "users example_store ''A'' = Some example_user_A"
  "is_member example_store ''A'' ''g''"
  "is_member example_store ''B'' ''g''"
  by (simp_all add: example_store_def example_groups_def example_users_def is_member_def)

subsection \<open>Hard-hard conflicts\<close>

text \<open>
  C1. For every pair of Hard events that share an attendee and whose half-open intervals
  overlap (\<open>a.start < b.end\<close> and \<open>b.start < a.end\<close>), creating or updating the second fails
  with \<open>ConflictError\<close> (hard-hard conflict), and cancelled events are excluded from the
  overlap set. The evaluator rejects every such candidate. A create or update that proposes
  one leaves the store as it was, whatever else is wrong with the call. Its error is the
  hard-hard \<open>ConflictError\<close> whenever the call reaches the evaluator: it is a creation or
  an update and not the repetition of an earlier call that section 4.3 makes a no-op (same
  key and same target state; a key used before for another event does not count), and it
  passes the checks for which the section prescribes another error (known group and
  organizer, membership, organizer and current version, an event that is not cancelled, a
  valid range).
\<close>

theorem hard_hard_conflict:
  "(constraint_level cand = Hard \<and> e \<in> set others \<and> constraint_level e = Hard
      \<and> status e \<noteq> Cancelled
      \<and> start_time_utc cand < end_time_utc e \<and> start_time_utc e < end_time_utc cand
     \<longrightarrow> evaluate cand others dnd = Reject HardHardConflict)
   \<and> (\<forall>x \<in> set (overlap_set cand others). status x \<noteq> Cancelled)
   \<and> evaluate cand (filter (\<lambda>x. status x \<noteq> Cancelled) others) dnd = evaluate cand others dnd
   \<and> (i < length (events s) \<and> constraint_level (events s ! i) = Hard
      \<and> status (events s ! i) \<noteq> Cancelled \<and> organizerId \<in> set (attendees_of s i)
      \<and> st < end_time_utc (events s ! i) \<and> start_time_utc (events s ! i) < en
     \<longrightarrow> snd (create tz s key now groupId organizerId ttl st en Hard) = s
        \<and> (repeated_create s key (new_event groupId organizerId ttl st en Hard) = None
            \<and> groups s groupId \<noteq> None
            \<and> users s organizerId \<noteq> None \<and> is_member s organizerId groupId \<and> st < en
           \<longrightarrow> fst (create tz s key now groupId organizerId ttl st en Hard)
                = Inl (ConflictError HardHardConflict)))
   \<and> (get_event s eventId = Some e2 \<and> constraint_level (apply_changes chg e2) = Hard
      \<and> j < length (events s) \<and> j \<noteq> eventId \<and> constraint_level (events s ! j) = Hard
      \<and> status (events s ! j) \<noteq> Cancelled
      \<and> u \<in> set (attendees_of s eventId) \<and> u \<in> set (attendees_of s j)
      \<and> start_time_utc (apply_changes chg e2) < end_time_utc (events s ! j)
      \<and> start_time_utc (events s ! j) < end_time_utc (apply_changes chg e2)
     \<longrightarrow> snd (update tz s key' now' eventId expectedVersion actorId chg) = s
        \<and> (repeated_update s key' eventId expectedVersion actorId chg = None
            \<and> actorId = organizer_id e2
            \<and> expectedVersion = version e2 \<and> status e2 \<noteq> Cancelled
            \<and> start_time_utc (apply_changes chg e2) < end_time_utc (apply_changes chg e2)
           \<longrightarrow> fst (update tz s key' now' eventId expectedVersion actorId chg)
                = Inl (ConflictError HardHardConflict)))"
proof -
  have rule2: "constraint_level cand = Hard \<and> e \<in> set others \<and> constraint_level e = Hard
      \<and> status e \<noteq> Cancelled
      \<and> start_time_utc cand < end_time_utc e \<and> start_time_utc e < end_time_utc cand
     \<longrightarrow> evaluate cand others dnd = Reject HardHardConflict"
    using evaluate_hard_hard by blast
  have excluded: "\<forall>x \<in> set (overlap_set cand others). status x \<noteq> Cancelled"
    using overlap_set_not_cancelled by blast
  have creating: "snd (create tz s key now groupId organizerId ttl st en Hard) = s
        \<and> (repeated_create s key (new_event groupId organizerId ttl st en Hard) = None
            \<and> groups s groupId \<noteq> None
            \<and> users s organizerId \<noteq> None \<and> is_member s organizerId groupId \<and> st < en
           \<longrightarrow> fst (create tz s key now groupId organizerId ttl st en Hard)
                = Inl (ConflictError HardHardConflict))"
    if h: "i < length (events s) \<and> constraint_level (events s ! i) = Hard
      \<and> status (events s ! i) \<noteq> Cancelled \<and> organizerId \<in> set (attendees_of s i)
      \<and> st < end_time_utc (events s ! i) \<and> start_time_utc (events s ! i) < en"
  proof -
    let ?c = "new_event groupId organizerId ttl st en Hard"
    from h have "events s ! i \<in> set (sharing_events s [organizerId] None)"
      by (intro sharing_events_member [where u = organizerId]) simp_all
    with h have r: "evaluate ?c (sharing_events s [organizerId] None)
        (dnd_intervals tz s [organizerId] st en) = Reject HardHardConflict"
      by (intro evaluate_hard_hard [where e = "events s ! i"]) (simp_all add: new_event_def)
    show ?thesis
      using create_rejected(1) [OF r] create_rejected(2) [OF r] by simp
  qed
  have updating: "snd (update tz s key' now' eventId expectedVersion actorId chg) = s
        \<and> (repeated_update s key' eventId expectedVersion actorId chg = None
            \<and> actorId = organizer_id e2
            \<and> expectedVersion = version e2 \<and> status e2 \<noteq> Cancelled
            \<and> start_time_utc (apply_changes chg e2) < end_time_utc (apply_changes chg e2)
           \<longrightarrow> fst (update tz s key' now' eventId expectedVersion actorId chg)
                = Inl (ConflictError HardHardConflict))"
    if h: "get_event s eventId = Some e2 \<and> constraint_level (apply_changes chg e2) = Hard
      \<and> j < length (events s) \<and> j \<noteq> eventId \<and> constraint_level (events s ! j) = Hard
      \<and> status (events s ! j) \<noteq> Cancelled
      \<and> u \<in> set (attendees_of s eventId) \<and> u \<in> set (attendees_of s j)
      \<and> start_time_utc (apply_changes chg e2) < end_time_utc (events s ! j)
      \<and> start_time_utc (events s ! j) < end_time_utc (apply_changes chg e2)"
  proof -
    let ?who = "attendees_of s eventId"
    let ?c = "apply_changes chg e2"
    from h have "events s ! j \<in> set (sharing_events s ?who (Some eventId))"
      by (intro sharing_events_member [where u = u]) simp_all
    with h have r: "evaluate ?c (sharing_events s ?who (Some eventId))
        (dnd_intervals tz s ?who (start_time_utc ?c) (end_time_utc ?c))
        = Reject HardHardConflict"
      by (intro evaluate_hard_hard [where e = "events s ! j"]) simp_all
    from h have g: "get_event s eventId = Some e2"
      by simp
    show ?thesis
      using update_rejected(1) [OF g r, of key' now' expectedVersion actorId]
        update_rejected(2) [OF g r, of key' expectedVersion actorId now']
      by blast
  qed
  from rule2 excluded creating updating show ?thesis
    by (simp only: evaluate_drops_cancelled simp_thms) blast
qed

theorem hard_hard_conflict_witness:
  "evaluate (new_event ''g'' ''B'' ''Sync'' 630 690 Hard) (events example_store) []
     = Reject HardHardConflict
   \<and> create example_tz example_store ''lunch-1'' 0 ''g'' ''B'' ''Sync'' 630 690 Hard
     = (Inl (ConflictError HardHardConflict), example_store)
   \<and> update example_tz example_store ''k2'' 0 1 1 ''B'' example_move
     = (Inl (ConflictError HardHardConflict), example_store)"
proof -
  let ?e1 = "new_event ''g'' ''B'' ''Lunch'' 700 760 Soft"
  have g: "get_event example_store 1 = Some ?e1"
    by (simp add: get_event_def example_store_def)
  have m: "apply_changes example_move ?e1 = new_event ''g'' ''B'' ''Lunch'' 630 690 Hard"
    by (simp add: apply_changes_def example_move_def new_event_def)
  have in0: "events example_store ! 0 \<in> set (events example_store)"
    by (simp add: example_store_def)
  note h = hard_hard_conflict [where cand = "new_event ''g'' ''B'' ''Sync'' 630 690 Hard"
      and e = "events example_store ! 0" and others = "events example_store" and dnd = "[]"
      and i = 0 and s = example_store and organizerId = "''B''" and st = 630 and en = 690
      and tz = example_tz and key = "''lunch-1''" and now = 0 and groupId = "''g''"
      and ttl = "''Sync''" and eventId = 1 and ?e2.0 = ?e1 and chg = example_move and j = 0
      and u = "''B''" and key' = "''k2''" and now' = 0 and expectedVersion = 1
      and actorId = "''B''"]
  show ?thesis
    using h in0 g
    by (simp add: m example_events_0 example_length example_attendees_of example_no_repeat
        example_lookups new_event_fields prod_eq_iff)
qed

end
